theory Spec2Isabelle
  imports Main
begin

section \<open>Python values used by the collector\<close>

text \<open>
  The exceptions that the modelled code can raise. \<open>ValueError\<close> carries the message of an
  explicit \<^verbatim>\<open>raise ValueError(...)\<close>; the others come from built-in operations
  (\<^verbatim>\<open>.get\<close> on a non-dict, iterating a non-iterable, \<^verbatim>\<open>float\<close>, date arithmetic,
  \<^verbatim>\<open>response.json()\<close>, the \<^verbatim>\<open>requests\<close> transport).
\<close>

datatype py_error =
    ValueError string
  | TypeError
  | AttributeError
  | OverflowError
  | JSONDecodeError
  | RequestException

text \<open>
  A \<^verbatim>\<open>str\<close> is the list of the bytes of its UTF-8 encoding. A float that the JSON decoder
  builds is kept as the number it was written as: \<open>Decimal m e\<close> is the double nearest to
  \<open>m * 10 ^ e\<close>. A float that \<^verbatim>\<open>float(x)\<close> builds is kept as the conversion that produced
  it. The IEEE value is not computed.
\<close>

datatype json_float = Decimal int int | NaN | Infinity | NegInfinity

datatype pyfloat = FloatOfInt int | FloatOfStr string | FloatOfJSON json_float

text \<open>
  A decoded JSON document. \<open>JObj\<close> holds the items of the Python dict in insertion order
  (the keys of a dict are distinct; a lookup takes the first binding).
\<close>

datatype json =
    JNull
  | JBool bool
  | JInt int
  | JFloat json_float
  | JStr string
  | JList "json list"
  | JObj "(string \<times> json) list"

subsection \<open>Truthiness, \<^verbatim>\<open>dict.get\<close> and iteration\<close>

text \<open>
  A float is false when it is zero: a number written with the mantissa 0, or one so small
  that it rounds to 0 (at most \<open>2 ^ -1075\<close>, half of the least positive double).
\<close>

definition float_nonzero :: "json_float \<Rightarrow> bool" where
  "float_nonzero f =
     (case f of
        Decimal m e \<Rightarrow> m \<noteq> 0 \<and> (e \<ge> 0 \<or> \<bar>m\<bar> * 2 ^ 1075 > 10 ^ nat (- e))
      | _ \<Rightarrow> True)"

definition truthy :: "json \<Rightarrow> bool" where
  "truthy v =
     (case v of
        JNull \<Rightarrow> False
      | JBool b \<Rightarrow> b
      | JInt i \<Rightarrow> i \<noteq> 0
      | JFloat f \<Rightarrow> float_nonzero f
      | JStr s \<Rightarrow> s \<noteq> []
      | JList xs \<Rightarrow> xs \<noteq> []
      | JObj kv \<Rightarrow> kv \<noteq> [])"

text \<open>\<^verbatim>\<open>d.get(key, default)\<close> on a dict.\<close>

definition dict_get :: "(string \<times> json) list \<Rightarrow> string \<Rightarrow> json \<Rightarrow> json" where
  "dict_get kv k dflt = (case map_of kv k of None \<Rightarrow> dflt | Some v \<Rightarrow> v)"

text \<open>\<^verbatim>\<open>v.get(key, default)\<close> on any value: only a dict has the method.\<close>

definition py_get :: "json \<Rightarrow> string \<Rightarrow> json \<Rightarrow> py_error + json" where
  "py_get v k dflt = (case v of JObj kv \<Rightarrow> Inr (dict_get kv k dflt) | _ \<Rightarrow> Inl AttributeError)"

text \<open>
  The characters of a \<^verbatim>\<open>str\<close>: in UTF-8 a character is a byte outside \<open>0x80..0xBF\<close>
  followed by its continuation bytes, which lie inside.
\<close>

definition is_continuation :: "char \<Rightarrow> bool" where
  "is_continuation c = (let n = (of_char c :: nat) in 128 \<le> n \<and> n < 192)"

function characters :: "string \<Rightarrow> string list" where
  "characters [] = []"
| "characters (c # cs) =
     (c # takeWhile is_continuation cs) # characters (dropWhile is_continuation cs)"
  by pat_completeness auto
termination
  by (relation "measure length") (auto simp: length_dropWhile_le less_Suc_eq_le)

text \<open>
  \<^verbatim>\<open>for x in v\<close>: a list gives its elements, a string its characters, a dict its keys;
  anything else is not iterable.
\<close>

definition py_iter :: "json \<Rightarrow> py_error + json list" where
  "py_iter v =
     (case v of
        JList xs \<Rightarrow> Inr xs
      | JStr s \<Rightarrow> Inr (map JStr (characters s))
      | JObj kv \<Rightarrow> Inr (map (\<lambda>(k, _). JStr k) kv)
      | _ \<Rightarrow> Inl TypeError)"

section \<open>The consent data model\<close>

datatype ConsentStatus = PENDING | GRANTED | DENIED | EXPIRED | REVOKED

text \<open>The \<^verbatim>\<open>.value\<close> of a member of the enumeration.\<close>

fun status_value :: "ConsentStatus \<Rightarrow> string" where
  "status_value PENDING = ''pending''"
| "status_value GRANTED = ''granted''"
| "status_value DENIED = ''denied''"
| "status_value EXPIRED = ''expired''"
| "status_value REVOKED = ''revoked''"

text \<open>
  \<^verbatim>\<open>ConsentRequest\<close>. A \<^verbatim>\<open>datetime\<close> is an integer count of microseconds since the start of
  1970. \<open>consent_id\<close> and \<open>consent_url\<close> hold whatever the network's reply carries under
  \<^verbatim>\<open>"id"\<close> and \<^verbatim>\<open>"url"\<close>; \<open>JNull\<close> is \<^verbatim>\<open>None\<close>. The constant field \<^verbatim>\<open>data_sources\<close> is
  left out.
\<close>

record ConsentRequest =
  user_id :: string
  purpose :: string
  duration_days :: int
  created_at :: int
  expires_at :: int
  status :: ConsentStatus
  consent_handle :: "string option"
  consent_id :: json
  consent_url :: json
  fi_types :: "string list"

text \<open>The fields of the \<^verbatim>\<open>SetuConsentRequest\<close> payload that vary from call to call.\<close>

record SetuConsentRequest =
  consentStart :: int
  consentExpiry :: int
  fiTypes :: "string list"
  Customer_id :: string
  Customer_mobile :: string
  Purpose_text :: string
  FIDataRange_from :: int
  FIDataRange_to :: int
  ConsentNotifier :: "string option"

record fi_request_payload =
  consentId :: json
  from_date :: int
  to_date :: int

section \<open>The network, the clock and the built-ins\<close>

text \<open>
  The four calls that the collector makes through \<^verbatim>\<open>self.session\<close>:
  \<^verbatim>\<open>POST /consents\<close>, \<^verbatim>\<open>GET /Consent/handle/{consent_id}\<close>, \<^verbatim>\<open>POST /FI/request\<close>
  and \<^verbatim>\<open>GET /FI/fetch/{session_id}\<close>.
\<close>

datatype request =
    POST_consents SetuConsentRequest
  | GET_Consent_handle json
  | POST_FI_request fi_request_payload
  | GET_FI_fetch string

text \<open>
  A reply: its status code, its body as \<^verbatim>\<open>response.json()\<close> decodes it (\<open>None\<close> when
  decoding raises) and its \<^verbatim>\<open>response.text\<close>. A call that gets no reply raises a
  transport exception.
\<close>

record response =
  status_code :: int
  json_body :: "json option"
  resp_text :: string

datatype http_result = Response response | Raises

text \<open>
  The environment of a run.
  \<^item> \<open>http\<close>: what the network answers to a request, given the requests sent before it.
  \<^item> \<open>clock\<close>: what the \<open>k\<close>-th call of \<^verbatim>\<open>datetime.now()\<close> returns, in microseconds
    since the start of 1970.
  \<^item> \<open>random_draw\<close>: the number that the generator of \<^verbatim>\<open>numpy\<close> draws first after it is
    seeded from a user id.
  \<^item> \<open>str_upper\<close>: the built-in \<^verbatim>\<open>str.upper\<close>, which follows the Unicode case tables.
  \<^item> \<open>float_str\<close>: whether the built-in \<^verbatim>\<open>float\<close> accepts a string; it raises ValueError
    on the others. It follows the Unicode tables of digits and spaces.

  The two built-ins are not part of the repository; every property below holds whatever
  they are.
\<close>

record env =
  http :: "request list \<Rightarrow> request \<Rightarrow> http_result"
  clock :: "nat \<Rightarrow> nat"
  random_draw :: "string \<Rightarrow> nat"
  str_upper :: "string \<Rightarrow> string"
  float_str :: "string \<Rightarrow> bool"

text \<open>
  \<^verbatim>\<open>float(x)\<close>. \<^verbatim>\<open>None\<close>, lists and dicts raise TypeError; an int that rounds beyond the
  greatest double raises OverflowError; a string that \<^verbatim>\<open>float\<close> does not accept raises
  ValueError.
\<close>

definition py_float :: "env \<Rightarrow> json \<Rightarrow> py_error + pyfloat" where
  "py_float e v =
     (case v of
        JNull \<Rightarrow> Inl TypeError
      | JBool b \<Rightarrow> Inr (FloatOfInt (if b then 1 else 0))
      | JInt i \<Rightarrow> if \<bar>i\<bar> \<ge> 2 ^ 1024 - 2 ^ 970 then Inl OverflowError else Inr (FloatOfInt i)
      | JFloat f \<Rightarrow> Inr (FloatOfJSON f)
      | JStr s \<Rightarrow>
          if float_str e s then Inr (FloatOfStr s)
          else Inl (ValueError ''could not convert string to float'')
      | JList _ \<Rightarrow> Inl TypeError
      | JObj _ \<Rightarrow> Inl TypeError)"

text \<open>
  The state of an \<^verbatim>\<open>AccountAggregatorCollector\<close>, together with the log of the requests it
  has sent and the number of clock readings it has taken.
\<close>

record collector =
  is_configured :: bool
  client_id :: string
  webhook_url :: "string option"
  active_consents :: "string \<rightharpoonup> ConsentRequest"
  sent :: "request list"
  clock_reads :: nat

text \<open>The datetime that the next call of \<^verbatim>\<open>datetime.now()\<close> returns.\<close>

definition reading :: "env \<Rightarrow> collector \<Rightarrow> int" where
  "reading e s = int (clock e (clock_reads s))"

definition datetime_now :: "env \<Rightarrow> collector \<Rightarrow> int \<times> collector" where
  "datetime_now e s = (reading e s, s\<lparr>clock_reads := Suc (clock_reads s)\<rparr>)"

definition send :: "env \<Rightarrow> request \<Rightarrow> collector \<Rightarrow> http_result \<times> collector" where
  "send e req s = (http e (sent s) req, s\<lparr>sent := sent s @ [req]\<rparr>)"

subsection \<open>Date arithmetic\<close>

text \<open>The microseconds of a number of days.\<close>

definition timedelta_days :: "int \<Rightarrow> int" where
  "timedelta_days d = d * 86400000000"

text \<open>\<^verbatim>\<open>timedelta(days=d)\<close>: the magnitude of \<open>d\<close> must not exceed 999999999.\<close>

definition timedelta :: "int \<Rightarrow> py_error + int" where
  "timedelta d = (if \<bar>d\<bar> > 999999999 then Inl OverflowError else Inr (timedelta_days d))"

text \<open>
  The datetimes run from the start of the year 1, 719162 days before 1970, to the end of
  the year 9999, 2932897 days after.
\<close>

definition datetime_min :: int where
  "datetime_min = - timedelta_days 719162"

definition datetime_end :: int where
  "datetime_end = timedelta_days 2932897"

text \<open>
  \<^verbatim>\<open>t + timedelta(days=d)\<close>: the operand \<open>t\<close> is evaluated first, then the
  \<^verbatim>\<open>timedelta\<close> is built, then the sum must be a datetime.
\<close>

definition plus_days :: "int \<Rightarrow> int \<Rightarrow> py_error + int" where
  "plus_days t d =
     (case timedelta d of
        Inl err \<Rightarrow> Inl err
      | Inr delta \<Rightarrow>
          if datetime_min \<le> t + delta \<and> t + delta < datetime_end then Inr (t + delta)
          else Inl OverflowError)"

section \<open>The consent lifecycle\<close>

subsection \<open>\<^verbatim>\<open>create_consent_request\<close>\<close>

definition default_fi_types :: "string list" where
  "default_fi_types = [''DEPOSIT'', ''TERM_DEPOSIT'', ''RECURRING_DEPOSIT'']"

text \<open>
  The \<^verbatim>\<open>try\<close> block after \<^verbatim>\<open>self.session.post\<close>. A reply with code 200 whose body
  is a dict stores the consent as PENDING; any other reply stores it as DENIED; an exception
  (no reply, or a 200 body that does not decode to a dict) returns it as DENIED without
  storing it.
\<close>

definition store_consent :: "string \<Rightarrow> ConsentRequest \<Rightarrow> collector \<Rightarrow> collector" where
  "store_consent handle c s = s\<lparr>active_consents := (active_consents s)(handle \<mapsto> c)\<rparr>"

definition create_consent_reply ::
  "string \<Rightarrow> ConsentRequest \<Rightarrow> http_result \<Rightarrow> collector \<Rightarrow>
   (py_error + ConsentRequest) \<times> collector" where
  "create_consent_reply handle consent_request r s =
     (case r of
        Raises \<Rightarrow> (Inr (consent_request\<lparr>status := DENIED\<rparr>), s)
      | Response resp \<Rightarrow>
          if status_code resp = 200 then
            (case json_body resp of
               Some (JObj kv) \<Rightarrow>
                 let c = consent_request\<lparr> consent_id := dict_get kv ''id'' JNull,
                                           consent_url := dict_get kv ''url'' JNull,
                                           status := PENDING \<rparr>
                 in (Inr c, store_consent handle c s)
             | _ \<Rightarrow> (Inr (consent_request\<lparr>status := DENIED\<rparr>), s))
          else
            let c = consent_request\<lparr>status := DENIED\<rparr>
            in (Inr c, store_consent handle c s))"

text \<open>
  \<^verbatim>\<open>create_consent_request\<close>. \<open>handle\<close> is the string that \<^verbatim>\<open>uuid.uuid4()\<close> draws. The six
  clock readings are taken in the order of the source. The two sums
  \<^verbatim>\<open>datetime.now() + timedelta(days=duration_days)\<close> stand before the \<^verbatim>\<open>try\<close>: when one
  overflows, the exception leaves the function, and nothing is sent or stored. The
  difference \<^verbatim>\<open>datetime.now() - timedelta(days=365)\<close> is a datetime, since the clock shows a
  time from 1970 on.
\<close>

definition create_consent_request ::
  "env \<Rightarrow> string \<Rightarrow> string \<Rightarrow> string list option \<Rightarrow> string \<Rightarrow> int \<Rightarrow> string option \<Rightarrow>
   collector \<Rightarrow> (py_error + ConsentRequest) \<times> collector" where
  "create_consent_request e handle uid fi_types_arg purpose_arg days customer_mobile s =
     (if \<not> is_configured s then (Inl (ValueError ''Collector not configured''), s)
      else
        let fi = (case fi_types_arg of None \<Rightarrow> default_fi_types | Some f \<Rightarrow> f);
            (t1, s1) = datetime_now e s;
            (t2, s2) = datetime_now e s1
        in case plus_days t2 days of
             Inl err \<Rightarrow> (Inl err, s2)
           | Inr consent_expiry \<Rightarrow>
               let (t3, s3) = datetime_now e s2;
                   (t4, s4) = datetime_now e s3;
                   mobile = (case customer_mobile of
                               None \<Rightarrow> None
                             | Some m \<Rightarrow> if m = [] then None else Some m);
                   payload = \<lparr> consentStart = t1,
                               consentExpiry = consent_expiry,
                               fiTypes = fi,
                               Customer_id = (case mobile of None \<Rightarrow> ''customer_'' @ uid | Some m \<Rightarrow> m),
                               Customer_mobile = (case mobile of None \<Rightarrow> ''9999999999'' | Some m \<Rightarrow> m),
                               Purpose_text = purpose_arg,
                               FIDataRange_from = t3 - timedelta_days 365,
                               FIDataRange_to = t4,
                               ConsentNotifier =
                                 (case webhook_url s of
                                    None \<Rightarrow> None
                                  | Some u \<Rightarrow> if u = [] then None else Some u) \<rparr>;
                   (t5, s5) = datetime_now e s4;
                   (t6, s6) = datetime_now e s5
               in case plus_days t6 days of
                    Inl err \<Rightarrow> (Inl err, s6)
                  | Inr expiry \<Rightarrow>
                      let consent_request = \<lparr> user_id = uid,
                                              purpose = purpose_arg,
                                              duration_days = days,
                                              created_at = t5,
                                              expires_at = expiry,
                                              status = PENDING,
                                              consent_handle = Some handle,
                                              consent_id = JNull,
                                              consent_url = JNull,
                                              fi_types = fi \<rparr>;
                          (r, s7) = send e (POST_consents payload) s6
                      in create_consent_reply handle consent_request r s7)"

subsection \<open>\<^verbatim>\<open>get_consent_status\<close>\<close>

text \<open>The dict \<^verbatim>\<open>status_mapping\<close> with its lookup \<^verbatim>\<open>.get(api_status, ConsentStatus.PENDING)\<close>.\<close>

definition status_mapping_items :: "(string \<times> ConsentStatus) list" where
  "status_mapping_items =
     [(''ACTIVE'', GRANTED),
      (''PAUSED'', PENDING),
      (''REVOKED'', REVOKED),
      (''EXPIRED'', EXPIRED),
      (''PENDING'', PENDING),
      (''REJECTED'', DENIED)]"

definition status_mapping :: "string \<Rightarrow> ConsentStatus" where
  "status_mapping api_status =
     (case map_of status_mapping_items api_status of None \<Rightarrow> PENDING | Some st \<Rightarrow> st)"

text \<open>
  \<^verbatim>\<open>status_data.get("status", "").upper()\<close> followed by the lookup. It raises when the body
  is not a dict or the value under \<^verbatim>\<open>"status"\<close> is not a string.
\<close>

definition mapped_status :: "env \<Rightarrow> json \<Rightarrow> py_error + ConsentStatus" where
  "mapped_status e status_data =
     (case status_data of
        JObj kv \<Rightarrow>
          (case dict_get kv ''status'' (JStr []) of
             JStr raw \<Rightarrow> Inr (status_mapping (str_upper e raw))
           | _ \<Rightarrow> Inl AttributeError)
      | _ \<Rightarrow> Inl AttributeError)"

definition set_status :: "string \<Rightarrow> ConsentRequest \<Rightarrow> ConsentStatus \<Rightarrow> collector \<Rightarrow> collector" where
  "set_status h consent st s =
     s\<lparr>active_consents := (active_consents s)(h \<mapsto> consent\<lparr>status := st\<rparr>)\<rparr>"

definition get_consent_status :: "env \<Rightarrow> string \<Rightarrow> collector \<Rightarrow> ConsentStatus \<times> collector" where
  "get_consent_status e h s =
     (case active_consents s h of
        None \<Rightarrow> (DENIED, s)
      | Some consent \<Rightarrow>
          let (t, s1) = datetime_now e s
          in if t > expires_at consent then (EXPIRED, set_status h consent EXPIRED s1)
             else if \<not> truthy (consent_id consent) then (status consent, s1)
             else
               let (r, s2) = send e (GET_Consent_handle (consent_id consent)) s1
               in case r of
                    Raises \<Rightarrow> (DENIED, s2)
                  | Response resp \<Rightarrow>
                      if status_code resp = 200 then
                        (case json_body resp of
                           None \<Rightarrow> (DENIED, s2)
                         | Some status_data \<Rightarrow>
                             (case mapped_status e status_data of
                                Inl _ \<Rightarrow> (DENIED, s2)
                              | Inr st \<Rightarrow> (st, set_status h consent st s2)))
                      else (status consent, s2))"

subsection \<open>\<^verbatim>\<open>request_fi_data\<close>\<close>

text \<open>The text of an error result: \<^verbatim>\<open>f"API error: {status_code}"\<close> or \<^verbatim>\<open>str(e)\<close>.\<close>

datatype error_text = ApiError int | ExceptionText py_error

text \<open>
  The dict that \<^verbatim>\<open>request_fi_data\<close> returns: with \<^verbatim>\<open>"success": True\<close> the session id
  and the consent id, with \<^verbatim>\<open>"success": False\<close> the error and the message.
\<close>

datatype fi_request_result = FIRequested json json | FIFailed error_text string

definition request_fi_data ::
  "env \<Rightarrow> string \<Rightarrow> collector \<Rightarrow> (py_error + fi_request_result) \<times> collector" where
  "request_fi_data e h s =
     (case active_consents s h of
        None \<Rightarrow> (Inl (ValueError ''Invalid consent handle''), s)
      | Some consent \<Rightarrow>
          let (st, s1) = get_consent_status e h s
          in if st \<noteq> GRANTED then (Inl (ValueError ''Consent not granted or expired''), s1)
             else
               let (t1, s2) = datetime_now e s1;
                   (t2, s3) = datetime_now e s2;
                   payload = \<lparr> consentId = consent_id consent,
                               from_date = t1 - timedelta_days 365,
                               to_date = t2 \<rparr>;
                   (r, s4) = send e (POST_FI_request payload) s3
               in case r of
                    Raises \<Rightarrow>
                      (Inr (FIFailed (ExceptionText RequestException)
                              ''Failed to initiate FI data request''), s4)
                  | Response resp \<Rightarrow>
                      if status_code resp = 200 then
                        (case json_body resp of
                           None \<Rightarrow>
                             (Inr (FIFailed (ExceptionText JSONDecodeError)
                                     ''Failed to initiate FI data request''), s4)
                         | Some (JObj kv) \<Rightarrow>
                             (Inr (FIRequested (dict_get kv ''sessionId'' JNull) (consent_id consent)), s4)
                         | Some _ \<Rightarrow>
                             (Inr (FIFailed (ExceptionText AttributeError)
                                     ''Failed to initiate FI data request''), s4))
                      else (Inr (FIFailed (ApiError (status_code resp)) (resp_text resp)), s4))"

text \<open>
  The route \<^verbatim>\<open>POST /request-fi-data\<close> of \<^verbatim>\<open>data_collection.py\<close>, which is also named
  \<^verbatim>\<open>request_fi_data\<close>. It asks for the status itself before it calls the collector. The
  validation of the response by its schema is not modelled.
\<close>

datatype http_exception = HTTPException int string

fun exception_text :: "py_error \<Rightarrow> string" where
  "exception_text (ValueError m) = m"
| "exception_text TypeError = ''TypeError''"
| "exception_text AttributeError = ''AttributeError''"
| "exception_text OverflowError = ''OverflowError''"
| "exception_text JSONDecodeError = ''JSONDecodeError''"
| "exception_text RequestException = ''RequestException''"

definition route_request_fi_data ::
  "env \<Rightarrow> string \<Rightarrow> collector \<Rightarrow> (http_exception + json \<times> json) \<times> collector" where
  "route_request_fi_data e h s =
     (let (st, s1) = get_consent_status e h s
      in if st \<noteq> GRANTED then
           (Inl (HTTPException 400 (''Consent not granted. Current status: '' @ status_value st)), s1)
         else
           let (result, s2) = request_fi_data e h s1
           in case result of
                Inl err \<Rightarrow>
                  (Inl (HTTPException 500 (''Internal server error: '' @ exception_text err)), s2)
              | Inr (FIFailed _ message) \<Rightarrow> (Inl (HTTPException 400 message), s2)
              | Inr (FIRequested session_id cid) \<Rightarrow> (Inr (session_id, cid), s2))"

subsection \<open>The webhook route and runs of operations\<close>

text \<open>
  The route \<^verbatim>\<open>POST /webhook/aa-consent\<close>: it reads \<^verbatim>\<open>consentId\<close> and \<^verbatim>\<open>status\<close> from
  the payload, logs them and acknowledges; it does not touch the collector.
\<close>

definition aa_consent_webhook :: "(string \<times> json) list \<Rightarrow> collector \<Rightarrow> string \<times> collector" where
  "aa_consent_webhook request s =
     (let cid = dict_get request ''consentId'' JNull;
          st = dict_get request ''status'' JNull
      in (''received'', s))"

datatype operation =
    CreateConsent string string "string list option" string int "string option"
  | GetStatus string
  | Webhook "(string \<times> json) list"

fun step :: "env \<Rightarrow> operation \<Rightarrow> collector \<Rightarrow> collector" where
  "step e (CreateConsent handle uid fi purpose_arg days mobile) s =
     snd (create_consent_request e handle uid fi purpose_arg days mobile s)"
| "step e (GetStatus h) s = snd (get_consent_status e h s)"
| "step e (Webhook request) s = snd (aa_consent_webhook request s)"

fun run :: "env \<Rightarrow> operation list \<Rightarrow> collector \<Rightarrow> collector" where
  "run e [] s = s"
| "run e (op # ops) s = run e ops (step e op s)"

text \<open>The status that the collector holds for a handle.\<close>

definition status_of :: "collector \<Rightarrow> string \<Rightarrow> ConsentStatus option" where
  "status_of s h = map_option status (active_consents s h)"

section \<open>Fetching and normalising financial data\<close>

subsection \<open>The records of a data frame\<close>

text \<open>The account-level columns (\<^verbatim>\<open>summary_data\<close>) and the columns added per transaction.\<close>

record summary_data =
  account_id :: json
  account_type :: json
  account_name :: json
  masked_number :: json
  current_balance :: json
  available_balance :: json
  opening_date :: json
  currency :: json

record transaction_data =
  transaction_id :: json
  transaction_date :: json
  amount :: pyfloat
  transaction_type :: json
  description :: json
  balance_after_txn :: pyfloat
  value_date :: json
  reference :: json

text \<open>
  One element of \<^verbatim>\<open>processed_records\<close>: the summary of its account and, for a transaction
  record, the transaction columns; \<open>None\<close> is the summary-only record, whose transaction
  columns are missing.
\<close>

type_synonym record_row = "summary_data \<times> transaction_data option"

text \<open>
  What \<^verbatim>\<open>_process_setu_fi_data\<close> returns: the frame built from \<^verbatim>\<open>processed_records\<close>, the
  empty frame with the expected columns, or the output of
  \<^verbatim>\<open>_generate_sample_financial_data\<close> (user id, number of rows, first and last date). The
  conversion of the three date columns by \<^verbatim>\<open>pd.to_datetime(errors="coerce")\<close> changes cells,
  not rows, and is not modelled; \<^verbatim>\<open>pandas\<close> is taken not to raise.
\<close>

datatype dataframe =
    DataFrame "record_row list"
  | EmptyFrame
  | SampleData string nat int int

fun len :: "dataframe \<Rightarrow> nat" where
  "len (DataFrame rows) = length rows"
| "len EmptyFrame = 0"
| "len (SampleData uid n first_date last_date) = n"

subsection \<open>\<^verbatim>\<open>_generate_sample_financial_data\<close>\<close>

text \<open>
  \<^verbatim>\<open>np.random.randint(50, 200)\<close> draws \<open>n_transactions\<close> from 50 to 199; the dates run from
  \<^verbatim>\<open>datetime.now() - timedelta(days=90)\<close>, a datetime since the clock shows a time from
  1970 on, to \<^verbatim>\<open>datetime.now()\<close>. The random columns are not modelled.
\<close>

definition generate_sample_financial_data ::
  "env \<Rightarrow> string \<Rightarrow> collector \<Rightarrow> dataframe \<times> collector" where
  "generate_sample_financial_data e uid s =
     (let n_transactions = 50 + random_draw e uid mod 150;
          (t1, s1) = datetime_now e s;
          (t2, s2) = datetime_now e s1
      in (SampleData uid n_transactions (t1 - timedelta_days 90) t2, s2))"

subsection \<open>\<^verbatim>\<open>_process_setu_fi_data\<close>\<close>

text \<open>A \<^verbatim>\<open>for\<close> loop that builds a list: it stops at the first element that raises.\<close>

fun map_err :: "('a \<Rightarrow> py_error + 'b) \<Rightarrow> 'a list \<Rightarrow> py_error + 'b list" where
  "map_err f [] = Inr []"
| "map_err f (x # xs) =
     (case f x of
        Inl err \<Rightarrow> Inl err
      | Inr y \<Rightarrow> (case map_err f xs of Inl err \<Rightarrow> Inl err | Inr ys \<Rightarrow> Inr (y # ys)))"

definition summary_of :: "(string \<times> json) list \<Rightarrow> summary_data" where
  "summary_of account_info =
     \<lparr> account_id = dict_get account_info ''accountId'' JNull,
       account_type = dict_get account_info ''type'' JNull,
       account_name = dict_get account_info ''name'' JNull,
       masked_number = dict_get account_info ''maskedAccountNumber'' JNull,
       current_balance = dict_get account_info ''currentBalance'' (JInt 0),
       available_balance = dict_get account_info ''availableBalance'' (JInt 0),
       opening_date = dict_get account_info ''openingDate'' JNull,
       currency = dict_get account_info ''currency'' (JStr ''INR'') \<rparr>"

text \<open>The body of the inner loop: one transaction record, or the exception it raises.\<close>

definition process_transaction :: "env \<Rightarrow> summary_data \<Rightarrow> json \<Rightarrow> py_error + record_row" where
  "process_transaction e summary txn =
     (case txn of
        JObj kv \<Rightarrow>
          (case py_float e (dict_get kv ''amount'' (JInt 0)) of
             Inl err \<Rightarrow> Inl err
           | Inr a \<Rightarrow>
               (case py_float e (dict_get kv ''currentBalance'' (JInt 0)) of
                  Inl err \<Rightarrow> Inl err
                | Inr b \<Rightarrow>
                    Inr (summary,
                         Some \<lparr> transaction_id = dict_get kv ''transactionId'' JNull,
                                transaction_date = dict_get kv ''transactionDate'' JNull,
                                amount = a,
                                transaction_type = dict_get kv ''type'' JNull,
                                description = dict_get kv ''description'' JNull,
                                balance_after_txn = b,
                                value_date = dict_get kv ''valueDate'' JNull,
                                reference = dict_get kv ''reference'' JNull \<rparr>)))
      | _ \<Rightarrow> Inl AttributeError)"

text \<open>
  The body of the outer loop: the records of one account. The summary-only record is added
  when \<^verbatim>\<open>not transactions\<close>.
\<close>

definition process_account :: "env \<Rightarrow> json \<Rightarrow> py_error + record_row list" where
  "process_account e account =
     (case account of
        JObj kv \<Rightarrow>
          (let account_info = dict_get kv ''account'' (JObj []);
               transactions = dict_get kv ''transactions'' (JList [])
           in case account_info of
                JObj info \<Rightarrow>
                  (case py_iter transactions of
                     Inl err \<Rightarrow> Inl err
                   | Inr txns \<Rightarrow>
                       (case map_err (process_transaction e (summary_of info)) txns of
                          Inl err \<Rightarrow> Inl err
                        | Inr rows \<Rightarrow>
                            Inr (rows @ (if \<not> truthy transactions then [(summary_of info, None)] else []))))
              | _ \<Rightarrow> Inl AttributeError)
      | _ \<Rightarrow> Inl AttributeError)"

text \<open>The two loops of the \<^verbatim>\<open>try\<close> block: \<^verbatim>\<open>processed_records\<close>, or the exception raised.\<close>

definition processed_records :: "env \<Rightarrow> json \<Rightarrow> py_error + record_row list" where
  "processed_records e fi_data =
     (case py_get fi_data ''Accounts'' (JList []) of
        Inl err \<Rightarrow> Inl err
      | Inr accounts \<Rightarrow>
          (case py_iter accounts of
             Inl err \<Rightarrow> Inl err
           | Inr accs \<Rightarrow>
               (case map_err (process_account e) accs of
                  Inl err \<Rightarrow> Inl err
                | Inr rss \<Rightarrow> Inr (concat rss))))"

text \<open>
  \<^verbatim>\<open>_process_setu_fi_data\<close>: the \<^verbatim>\<open>except\<close> clause answers every exception with the sample
  data of the user \<^verbatim>\<open>"demo_user"\<close>.
\<close>

definition process_setu_fi_data :: "env \<Rightarrow> json \<Rightarrow> collector \<Rightarrow> dataframe \<times> collector" where
  "process_setu_fi_data e fi_data s =
     (case processed_records e fi_data of
        Inl err \<Rightarrow> generate_sample_financial_data e ''demo_user'' s
      | Inr rows \<Rightarrow> if rows \<noteq> [] then (DataFrame rows, s) else (EmptyFrame, s))"

subsection \<open>\<^verbatim>\<open>fetch_fi_data\<close>\<close>

datatype metadata = FetchMetadata string "string list" | SessionOnly string

record CollectionResult =
  success :: bool
  data :: "dataframe option"
  result_metadata :: metadata
  error_message :: "error_text option"
  records_collected :: nat
  collection_timestamp :: "int option"

definition fetch_failed :: "string \<Rightarrow> error_text \<Rightarrow> CollectionResult" where
  "fetch_failed session_id msg =
     \<lparr> success = False, data = None, result_metadata = SessionOnly session_id,
       error_message = Some msg, records_collected = 0, collection_timestamp = None \<rparr>"

text \<open>
  After the normalisation the result is built inside the same \<^verbatim>\<open>try\<close>:
  \<^verbatim>\<open>list(response_data.keys())\<close> raises when the body is not a dict, and the outer
  \<^verbatim>\<open>except\<close> then reports a failure.
\<close>

definition fetch_fi_data :: "env \<Rightarrow> string \<Rightarrow> collector \<Rightarrow> CollectionResult \<times> collector" where
  "fetch_fi_data e session_id s =
     (let (r, s1) = send e (GET_FI_fetch session_id) s
      in case r of
           Raises \<Rightarrow> (fetch_failed session_id (ExceptionText RequestException), s1)
         | Response resp \<Rightarrow>
             if status_code resp = 200 then
               (case json_body resp of
                  None \<Rightarrow> (fetch_failed session_id (ExceptionText JSONDecodeError), s1)
                | Some response_data \<Rightarrow>
                    let (df, s2) = process_setu_fi_data e response_data s1
                    in case response_data of
                         JObj kv \<Rightarrow>
                           let (t, s3) = datetime_now e s2
                           in (\<lparr> success = True, data = Some df,
                                  result_metadata = FetchMetadata session_id (map fst kv),
                                  error_message = None, records_collected = len df,
                                  collection_timestamp = Some t \<rparr>, s3)
                       | _ \<Rightarrow> (fetch_failed session_id (ExceptionText AttributeError), s2))
             else (fetch_failed session_id (ApiError (status_code resp)), s1))"

section \<open>Shapes of payloads and of runs, for stating the properties\<close>

text \<open>
  The accounts that a payload reports, the transactions that an account reports, and the
  dict that describes the account.
\<close>

definition accounts_of :: "json \<Rightarrow> json list" where
  "accounts_of fi_data =
     (case fi_data of
        JObj kv \<Rightarrow> (case dict_get kv ''Accounts'' (JList []) of JList accs \<Rightarrow> accs | _ \<Rightarrow> [])
      | _ \<Rightarrow> [])"

definition transactions_of :: "json \<Rightarrow> json list" where
  "transactions_of account =
     (case account of
        JObj kv \<Rightarrow> (case dict_get kv ''transactions'' (JList []) of JList txns \<Rightarrow> txns | _ \<Rightarrow> [])
      | _ \<Rightarrow> [])"


text \<open>\<open>M\<close>: the transactions of all accounts. \<open>Z\<close>: the accounts that have none.\<close>

definition total_transactions :: "json \<Rightarrow> nat" where
  "total_transactions fi_data = sum_list (map (\<lambda>a. length (transactions_of a)) (accounts_of fi_data))"


text \<open>A value that \<^verbatim>\<open>float\<close> converts; on the others it raises.\<close>

definition converts :: "env \<Rightarrow> json \<Rightarrow> bool" where
  "converts e v = (case py_float e v of Inl _ \<Rightarrow> False | Inr _ \<Rightarrow> True)"





text \<open>An operation that stores a consent under the handle \<open>h\<close>.\<close>

fun creates :: "string \<Rightarrow> operation \<Rightarrow> bool" where
  "creates h (CreateConsent handle uid fi purpose_arg days mobile) = (handle = h)"
| "creates h (GetStatus h') = False"
| "creates h (Webhook request) = False"

section \<open>Example inputs\<close>

subsection \<open>The built-ins on ASCII text\<close>

text \<open>
  The examples contain ASCII strings only. On these \<^verbatim>\<open>str.upper\<close> maps a..z to A..Z, and
  \<^verbatim>\<open>float\<close> strips the spaces (tab, line feed, vertical tab, form feed, carriage return,
  space) and accepts
  \<^verbatim>\<open>[sign] (number [exponent] | "inf" | "infinity" | "nan")\<close>, the words in either case,
  with \<^verbatim>\<open>number ::= digitpart ["." [digitpart]] | "." digitpart\<close>,
  \<^verbatim>\<open>exponent ::= ("e" | "E") [sign] digitpart\<close> and
  \<^verbatim>\<open>digitpart ::= digit (["_"] digit)*\<close>. The two functions below are these built-ins on
  ASCII strings; they serve the example environment only.
\<close>

definition ascii_upper_char :: "char \<Rightarrow> char" where
  "ascii_upper_char c =
     (let n = (of_char c :: nat) in if 97 \<le> n \<and> n \<le> 122 then char_of (n - 32) else c)"

definition ascii_upper :: "string \<Rightarrow> string" where
  "ascii_upper s = map ascii_upper_char s"

definition is_space :: "char \<Rightarrow> bool" where
  "is_space c = (let n = (of_char c :: nat) in (9 \<le> n \<and> n \<le> 13) \<or> n = 32)"

definition strip_spaces :: "string \<Rightarrow> string" where
  "strip_spaces s = rev (dropWhile is_space (rev (dropWhile is_space s)))"

definition is_digit :: "char \<Rightarrow> bool" where
  "is_digit c = (let n = (of_char c :: nat) in 48 \<le> n \<and> n \<le> 57)"

text \<open>What is left after \<^verbatim>\<open>(["_"] digit)*\<close>.\<close>

fun after_digits :: "string \<Rightarrow> string" where
  "after_digits [] = []"
| "after_digits [c] = (if is_digit c then [] else [c])"
| "after_digits (c # d # cs) =
     (if is_digit c then after_digits (d # cs)
      else if c = CHR ''_'' \<and> is_digit d then after_digits cs
      else c # d # cs)"

text \<open>What is left after a \<^verbatim>\<open>digitpart\<close>, if the string starts with one.\<close>

definition digitpart :: "string \<Rightarrow> string option" where
  "digitpart s =
     (case s of
        [] \<Rightarrow> None
      | c # cs \<Rightarrow> if is_digit c then Some (after_digits cs) else None)"

text \<open>What is left after a \<^verbatim>\<open>number\<close>, if the string starts with one.\<close>

definition number :: "string \<Rightarrow> string option" where
  "number s =
     (case digitpart s of
        Some rest \<Rightarrow>
          (case rest of
             [] \<Rightarrow> Some []
           | c # r \<Rightarrow>
               if c = CHR ''.'' then (case digitpart r of Some r' \<Rightarrow> Some r' | None \<Rightarrow> Some r)
               else Some rest)
      | None \<Rightarrow>
          (case s of
             [] \<Rightarrow> None
           | c # r \<Rightarrow> if c = CHR ''.'' then digitpart r else None))"

text \<open>Whether a string is empty or an \<^verbatim>\<open>exponent\<close>.\<close>

definition optional_exponent :: "string \<Rightarrow> bool" where
  "optional_exponent s =
     (case s of
        [] \<Rightarrow> True
      | c # r \<Rightarrow>
          (c = CHR ''e'' \<or> c = CHR ''E'') \<and>
          digitpart (case r of
                       [] \<Rightarrow> []
                     | x # xs \<Rightarrow> if x = CHR ''+'' \<or> x = CHR ''-'' then xs else r) = Some [])"

definition ascii_float :: "string \<Rightarrow> bool" where
  "ascii_float s =
     (let t = strip_spaces s;
          u = (case t of [] \<Rightarrow> [] | c # r \<Rightarrow> if c = CHR ''+'' \<or> c = CHR ''-'' then r else t)
      in ascii_upper u = ''INF'' \<or> ascii_upper u = ''INFINITY'' \<or> ascii_upper u = ''NAN'' \<or>
         (case number u of None \<Rightarrow> False | Some rest \<Rightarrow> optional_exponent rest))"

subsection \<open>Consents, networks and payloads\<close>

definition example_consent :: "ConsentStatus \<Rightarrow> json \<Rightarrow> ConsentRequest" where
  "example_consent st cid =
     \<lparr> user_id = ''user-42'', purpose = ''Credit Assessment'', duration_days = 30,
       created_at = 0, expires_at = timedelta_days 30, status = st,
       consent_handle = Some ''H1'', consent_id = cid,
       consent_url = JNull, fi_types = [''DEPOSIT''] \<rparr>"

definition empty_collector :: collector where
  "empty_collector =
     \<lparr> is_configured = True, client_id = ''fiu-client'', webhook_url = None,
       active_consents = Map.empty, sent = [], clock_reads = 0 \<rparr>"

definition example_collector :: "ConsentRequest \<Rightarrow> collector" where
  "example_collector c = empty_collector\<lparr>active_consents := [''H1'' \<mapsto> c]\<rparr>"

definition reply :: "int \<Rightarrow> json \<Rightarrow> http_result" where
  "reply code body = Response \<lparr> status_code = code, json_body = Some body, resp_text = [] \<rparr>"

definition status_reply :: "string \<Rightarrow> http_result" where
  "status_reply st = reply 200 (JObj [(''status'', JStr st)])"

text \<open>The network that gives the \<open>k\<close>-th reply of a list to the \<open>k\<close>-th request, at a fixed time.\<close>

definition scripted_env :: "http_result list \<Rightarrow> nat \<Rightarrow> env" where
  "scripted_env replies t =
     \<lparr> http = (\<lambda>log req. if length log < length replies then replies ! length log else Raises),
       clock = (\<lambda>k. t),
       random_draw = (\<lambda>uid. 7),
       str_upper = ascii_upper,
       float_str = ascii_float \<rparr>"

definition example_operations :: "operation list" where
  "example_operations =
     [CreateConsent ''H1'' ''user-42'' (Some [''DEPOSIT'']) ''Credit Assessment'' 30 None,
      GetStatus ''H1'', GetStatus ''H1'', GetStatus ''H1'', GetStatus ''H1'']"

definition example_replies :: "http_result list" where
  "example_replies =
     [reply 200 (JObj [(''id'', JStr ''R1''), (''url'', JStr ''https://aa.example/R1'')]),
      status_reply ''ACTIVE'', status_reply ''PAUSED'', status_reply ''REVOKED'',
      status_reply ''ACTIVE'']"

definition example_account :: "string \<Rightarrow> json list \<Rightarrow> json" where
  "example_account acc txns =
     JObj [(''account'', JObj [(''accountId'', JStr acc), (''type'', JStr ''SAVINGS''),
                               (''currentBalance'', JInt 5000)]),
           (''transactions'', JList txns)]"

definition example_transaction :: "string \<Rightarrow> json \<Rightarrow> json" where
  "example_transaction tid amt =
     JObj [(''transactionId'', JStr tid), (''amount'', amt), (''type'', JStr ''DEBIT'')]"

definition example_payload :: json where
  "example_payload =
     JObj [(''Accounts'',
            JList [example_account ''ACC1''
                     [example_transaction ''T1'' (JInt 100),
                      example_transaction ''T2'' (JStr ''12.50'')],
                   example_account ''ACC2'' []])]"

definition malformed_payload :: json where
  "malformed_payload =
     JObj [(''Accounts'',
            JList [example_account ''ACC1''
                     [example_transaction ''T1'' (JStr ''abc''),
                      example_transaction ''T2'' (JInt 100)]])]"


section \<open>Properties\<close>

subsection \<open>What one call of \<^verbatim>\<open>get_consent_status\<close> sends\<close>

lemma get_consent_status_sent:
  "sent (snd (get_consent_status e h s)) = sent s \<or>
   (\<exists>cid. sent (snd (get_consent_status e h s)) = sent s @ [GET_Consent_handle cid])"
  by (auto simp: get_consent_status_def datetime_now_def reading_def send_def set_status_def Let_def
      split: option.splits http_result.splits sum.splits)

text \<open>The status that is answered is the one that is stored afterwards, or it is DENIED.\<close>

lemma get_consent_status_answer:
  "fst (get_consent_status e h s) = DENIED \<or>
   status_of (snd (get_consent_status e h s)) h = Some (fst (get_consent_status e h s))"
  by (auto simp: get_consent_status_def datetime_now_def reading_def send_def set_status_def Let_def
      status_of_def split: option.splits http_result.splits sum.splits)

subsection \<open>Expiry\<close>

text \<open>
  C2. For a stored consent whose \<open>expires_at\<close> lies before the reading of the clock,
  \<^verbatim>\<open>get_consent_status\<close> returns EXPIRED and stores EXPIRED as the status of the consent,
  and it sends nothing: the log of requests is unchanged, so the answer does not depend on
  what the network would report (the environment \<open>e\<close> is arbitrary).
\<close>

theorem get_consent_status_expired:
  assumes "active_consents s h = Some c"
    and "reading e s > expires_at c"
  shows "fst (get_consent_status e h s) = EXPIRED
       \<and> fst (get_consent_status e h s) \<noteq> GRANTED
       \<and> active_consents (snd (get_consent_status e h s)) h = Some (c\<lparr>status := EXPIRED\<rparr>)
       \<and> sent (snd (get_consent_status e h s)) = sent s"
  using assms
  by (simp add: get_consent_status_def datetime_now_def reading_def set_status_def)

theorem get_consent_status_expired_witness:
  "fst (get_consent_status (scripted_env [status_reply ''ACTIVE''] (nat (timedelta_days 31))) ''H1''
          (example_collector (example_consent PENDING (JStr ''R1'')))) = EXPIRED
   \<and> sent (snd (get_consent_status (scripted_env [status_reply ''ACTIVE''] (nat (timedelta_days 31))) ''H1''
          (example_collector (example_consent PENDING (JStr ''R1''))))) = []"
proof -
  let ?c = "example_consent PENDING (JStr ''R1'')"
  let ?s = "example_collector ?c"
  let ?e = "scripted_env [status_reply ''ACTIVE''] (nat (timedelta_days 31))"
  have stored: "active_consents ?s ''H1'' = Some ?c"
    by (simp add: example_collector_def)
  have late: "reading ?e ?s > expires_at ?c"
    by (simp add: reading_def scripted_env_def example_consent_def timedelta_days_def)
  from get_consent_status_expired [OF stored late] show ?thesis
    by (simp add: example_collector_def empty_collector_def)
qed

subsection \<open>The mapping of the remote status\<close>

text \<open>
  C9, as the code has it. The remote status string is upper-cased by \<^verbatim>\<open>str.upper\<close> and
  then looked up in \<^verbatim>\<open>status_mapping\<close>. The lookup sends every key outside its six keys
  (ACTIVE, PAUSED, REVOKED, EXPIRED, PENDING, REJECTED) to PENDING and gives GRANTED for the
  key ACTIVE only. So a remote string is mapped to GRANTED exactly when its upper-cased form
  is ACTIVE, and to PENDING whenever its upper-cased form is outside the six keys.
\<close>

theorem status_mapping_fail_closed:
  "(api_status \<notin> set (map fst status_mapping_items) \<longrightarrow> status_mapping api_status = PENDING)
   \<and> (status_mapping api_status = GRANTED \<longleftrightarrow> api_status = ''ACTIVE'')
   \<and> (mapped_status e (JObj kv) = Inr GRANTED \<longleftrightarrow>
        (\<exists>raw. dict_get kv ''status'' (JStr []) = JStr raw \<and> str_upper e raw = ''ACTIVE''))
   \<and> (dict_get kv ''status'' (JStr []) = JStr remote \<and>
        str_upper e remote \<notin> set (map fst status_mapping_items) \<longrightarrow>
        mapped_status e (JObj kv) = Inr PENDING)"
  by (auto simp: status_mapping_def status_mapping_items_def mapped_status_def split: json.splits)

theorem status_mapping_fail_closed_witness:
  "''APPROVED'' \<notin> set (map fst status_mapping_items) \<and> status_mapping ''APPROVED'' = PENDING
   \<and> mapped_status (scripted_env [] 5) (JObj [(''status'', JStr ''approved'')]) = Inr PENDING"
proof -
  let ?e = "scripted_env [] 5"
  let ?kv = "[(''status'', JStr ''approved'')]"
  have up: "str_upper ?e ''approved'' = ''APPROVED''"
    by code_simp
  have remote: "dict_get ?kv ''status'' (JStr []) = JStr ''approved''"
    by (simp add: dict_get_def)
  have out: "''APPROVED'' \<notin> set (map fst status_mapping_items)"
    by (simp add: status_mapping_items_def)
  from status_mapping_fail_closed [of "''APPROVED''" ?e ?kv "''approved''"] up remote out
  show ?thesis by simp
qed

text \<open>
  The claim as stated fails: the remote string \<^verbatim>\<open>"active"\<close> is not \<^verbatim>\<open>"ACTIVE"\<close> and lies
  outside the six keys, and it is mapped to GRANTED.
\<close>

theorem lower_case_active_is_granted:
  "''active'' \<noteq> ''ACTIVE''
   \<and> ''active'' \<notin> set (map fst status_mapping_items)
   \<and> mapped_status (scripted_env [] 5) (JObj [(''status'', JStr ''active'')]) = Inr GRANTED
   \<and> fst (get_consent_status (scripted_env [status_reply ''active''] 5) ''H1''
          (example_collector (example_consent PENDING (JStr ''R1'')))) = GRANTED"
  by code_simp

subsection \<open>Transport failures while the status is reconciled\<close>

text \<open>
  C6, as the code has it. When the call to the status endpoint raises, the stored consents
  are left as they were, and \<^verbatim>\<open>get_consent_status\<close> returns DENIED to the caller: the
  \<^verbatim>\<open>except\<close> clause logs the failure and answers with the same value as a rejection.
\<close>

theorem get_consent_status_transport_error:
  assumes "active_consents s h = Some c"
    and "\<not> reading e s > expires_at c"
    and "truthy (consent_id c)"
    and "http e (sent s) (GET_Consent_handle (consent_id c)) = Raises"
  shows "fst (get_consent_status e h s) = DENIED
       \<and> active_consents (snd (get_consent_status e h s)) = active_consents s"
  using assms
  by (simp add: get_consent_status_def datetime_now_def reading_def send_def)

theorem get_consent_status_transport_error_witness:
  "fst (get_consent_status (scripted_env [Raises] 5) ''H1''
          (example_collector (example_consent GRANTED (JStr ''R1'')))) = DENIED
   \<and> active_consents (snd (get_consent_status (scripted_env [Raises] 5) ''H1''
          (example_collector (example_consent GRANTED (JStr ''R1'')))))
       = active_consents (example_collector (example_consent GRANTED (JStr ''R1'')))"
proof -
  let ?c = "example_consent GRANTED (JStr ''R1'')"
  let ?s = "example_collector ?c"
  let ?e = "scripted_env [Raises] 5"
  have stored: "active_consents ?s ''H1'' = Some ?c"
    by (simp add: example_collector_def)
  have in_time: "\<not> reading ?e ?s > expires_at ?c"
    by (simp add: reading_def scripted_env_def example_consent_def timedelta_days_def)
  have remote: "truthy (consent_id ?c)"
    by (simp add: example_consent_def truthy_def)
  have down: "http ?e (sent ?s) (GET_Consent_handle (consent_id ?c)) = Raises"
    by (simp add: scripted_env_def example_collector_def empty_collector_def)
  from get_consent_status_transport_error [OF stored in_time remote down] show ?thesis .
qed

text \<open>
  The claim as stated fails: a PENDING consent whose status call raises is reported as
  DENIED, the same answer as for a consent that the network reports as REJECTED, while the
  stored status stays PENDING.
\<close>

theorem transport_error_reported_as_denied:
  "fst (get_consent_status (scripted_env [Raises] 5) ''H1''
          (example_collector (example_consent PENDING (JStr ''R1'')))) = DENIED
   \<and> fst (get_consent_status (scripted_env [status_reply ''REJECTED''] 5) ''H1''
          (example_collector (example_consent PENDING (JStr ''R1'')))) = DENIED
   \<and> status_of (snd (get_consent_status (scripted_env [Raises] 5) ''H1''
          (example_collector (example_consent PENDING (JStr ''R1''))))) ''H1'' = Some PENDING"
  by code_simp

subsection \<open>Terminal states\<close>

text \<open>
  C7, as the code has it. There is no test for a terminal status. For a stored consent,
  \<^verbatim>\<open>get_consent_status\<close> sends no request exactly when the clock is past \<open>expires_at\<close>, and
  it then returns EXPIRED, or the consent has no remote \<open>consent_id\<close>, and it then returns
  the cached status unless the consent has expired. For a consent with a \<open>consent_id\<close> that
  has not expired it sends the status request, whatever the cached status is.
\<close>

theorem get_consent_status_network_call:
  assumes "active_consents s h = Some c"
  shows "sent (snd (get_consent_status e h s)) =
           (if reading e s > expires_at c \<or> \<not> truthy (consent_id c) then sent s
            else sent s @ [GET_Consent_handle (consent_id c)])
       \<and> (reading e s > expires_at c \<longrightarrow> fst (get_consent_status e h s) = EXPIRED)
       \<and> (\<not> reading e s > expires_at c \<and> \<not> truthy (consent_id c) \<longrightarrow>
            fst (get_consent_status e h s) = status c)"
  using assms
  by (auto simp: get_consent_status_def datetime_now_def reading_def send_def set_status_def Let_def
      split: http_result.splits option.splits sum.splits)

theorem get_consent_status_network_call_witness:
  "sent (snd (get_consent_status (scripted_env [status_reply ''ACTIVE''] 5) ''H1''
          (example_collector (example_consent DENIED JNull)))) = []
   \<and> fst (get_consent_status (scripted_env [status_reply ''ACTIVE''] 5) ''H1''
          (example_collector (example_consent DENIED JNull))) = DENIED
   \<and> sent (snd (get_consent_status (scripted_env [status_reply ''ACTIVE''] (nat (timedelta_days 31))) ''H1''
          (example_collector (example_consent DENIED (JStr ''R1''))))) = []
   \<and> fst (get_consent_status (scripted_env [status_reply ''ACTIVE''] (nat (timedelta_days 31))) ''H1''
          (example_collector (example_consent DENIED (JStr ''R1'')))) = EXPIRED
   \<and> sent (snd (get_consent_status (scripted_env [status_reply ''ACTIVE''] 5) ''H1''
          (example_collector (example_consent DENIED (JStr ''R1''))))) =
       [GET_Consent_handle (JStr ''R1'')]"
proof -
  let ?local = "example_consent DENIED JNull"
  let ?remote = "example_consent DENIED (JStr ''R1'')"
  let ?e = "scripted_env [status_reply ''ACTIVE''] 5"
  let ?late = "scripted_env [status_reply ''ACTIVE''] (nat (timedelta_days 31))"
  have stored: "active_consents (example_collector c) ''H1'' = Some c" for c
    by (simp add: example_collector_def)
  have facts:
    "\<not> truthy (consent_id ?local)" "truthy (consent_id ?remote)"
    "\<not> reading ?e (example_collector ?local) > expires_at ?local"
    "\<not> reading ?e (example_collector ?remote) > expires_at ?remote"
    "reading ?late (example_collector ?remote) > expires_at ?remote"
    "sent (example_collector ?local) = []" "sent (example_collector ?remote) = []"
    "status ?local = DENIED" "consent_id ?remote = JStr ''R1''"
    by (simp_all add: example_consent_def truthy_def reading_def scripted_env_def timedelta_days_def
        example_collector_def empty_collector_def)
  from get_consent_status_network_call [OF stored, of ?e ?local]
    get_consent_status_network_call [OF stored, of ?late ?remote]
    get_consent_status_network_call [OF stored, of ?e ?remote] facts
  show ?thesis by simp
qed

text \<open>
  The claim as stated fails: a consent that is cached as REVOKED and has a \<open>consent_id\<close> is
  queried again, and the reply ACTIVE turns it into GRANTED.
\<close>

theorem revoked_consent_is_queried_again:
  "status_of (example_collector (example_consent REVOKED (JStr ''R1''))) ''H1'' = Some REVOKED
   \<and> fst (get_consent_status (scripted_env [status_reply ''ACTIVE''] 5) ''H1''
          (example_collector (example_consent REVOKED (JStr ''R1'')))) = GRANTED
   \<and> sent (snd (get_consent_status (scripted_env [status_reply ''ACTIVE''] 5) ''H1''
          (example_collector (example_consent REVOKED (JStr ''R1'')))))
       = [GET_Consent_handle (JStr ''R1'')]"
  by code_simp

subsection \<open>Requesting data without a granted consent\<close>

text \<open>
  C5, as the code has it. When \<^verbatim>\<open>get_consent_status\<close> answers anything but GRANTED for the
  handle, the route \<^verbatim>\<open>request_fi_data\<close> fails with the HTTP error 400 whose detail names
  the status that was answered; this is the status stored for the consent afterwards, or it
  is DENIED. The method \<^verbatim>\<open>request_fi_data\<close> of the collector raises a ValueError with one
  of two fixed messages, which name no status. Neither sends anything beyond what the status
  check sends, which is never a \<^verbatim>\<open>POST /FI/request\<close>, and neither returns a session id.
\<close>

theorem request_fi_data_consent_not_granted:
  assumes "fst (get_consent_status e h s) \<noteq> GRANTED"
  shows "fst (route_request_fi_data e h s) =
           Inl (HTTPException 400
                  (''Consent not granted. Current status: '' @
                   status_value (fst (get_consent_status e h s))))
       \<and> (fst (get_consent_status e h s) = DENIED \<or>
           status_of (snd (get_consent_status e h s)) h = Some (fst (get_consent_status e h s)))
       \<and> fst (request_fi_data e h s) =
           Inl (ValueError (if active_consents s h = None then ''Invalid consent handle''
                            else ''Consent not granted or expired''))
       \<and> sent (snd (route_request_fi_data e h s)) = sent (snd (get_consent_status e h s))
       \<and> sent (snd (request_fi_data e h s)) = sent (snd (get_consent_status e h s))
       \<and> (\<forall>payload. POST_FI_request payload \<notin>
             set (drop (length (sent s)) (sent (snd (get_consent_status e h s)))))"
proof -
  obtain st s1 where g: "get_consent_status e h s = (st, s1)"
    by (cases "get_consent_status e h s")
  with assms have ng: "st \<noteq> GRANTED" by simp
  have route: "route_request_fi_data e h s =
      (Inl (HTTPException 400 (''Consent not granted. Current status: '' @ status_value st)), s1)"
    using g ng by (simp add: route_request_fi_data_def)
  have coll: "fst (request_fi_data e h s) =
        Inl (ValueError (if active_consents s h = None then ''Invalid consent handle''
                         else ''Consent not granted or expired''))
      \<and> sent (snd (request_fi_data e h s)) = sent s1"
  proof (cases "active_consents s h")
    case None
    then have "get_consent_status e h s = (DENIED, s)"
      by (simp add: get_consent_status_def)
    with g have "s1 = s" by simp
    with None show ?thesis by (simp add: request_fi_data_def)
  next
    case (Some c)
    with g ng show ?thesis by (simp add: request_fi_data_def)
  qed
  have log: "\<forall>payload. POST_FI_request payload \<notin> set (drop (length (sent s)) (sent s1))"
    using get_consent_status_sent [of e h s] g by auto
  have answer: "st = DENIED \<or> status_of s1 h = Some st"
    using get_consent_status_answer [of e h s] g by simp
  from route coll log answer g show ?thesis by simp
qed

theorem request_fi_data_consent_not_granted_witness:
  "fst (route_request_fi_data (scripted_env [status_reply ''PENDING''] 5) ''H1''
          (example_collector (example_consent PENDING (JStr ''R1'')))) =
     Inl (HTTPException 400 ''Consent not granted. Current status: pending'')
   \<and> fst (request_fi_data (scripted_env [status_reply ''PENDING''] 5) ''H1''
          (example_collector (example_consent PENDING (JStr ''R1'')))) =
     Inl (ValueError ''Consent not granted or expired'')
   \<and> sent (snd (route_request_fi_data (scripted_env [status_reply ''PENDING''] 5) ''H1''
          (example_collector (example_consent PENDING (JStr ''R1''))))) =
     [GET_Consent_handle (JStr ''R1'')]"
proof -
  let ?s = "example_collector (example_consent PENDING (JStr ''R1''))"
  let ?e = "scripted_env [status_reply ''PENDING''] 5"
  have st: "fst (get_consent_status ?e ''H1'' ?s) = PENDING"
    by code_simp
  then have ng: "fst (get_consent_status ?e ''H1'' ?s) \<noteq> GRANTED"
    by simp
  have log: "sent (snd (get_consent_status ?e ''H1'' ?s)) = [GET_Consent_handle (JStr ''R1'')]"
    by code_simp
  have stored: "active_consents ?s ''H1'' \<noteq> None"
    by (simp add: example_collector_def)
  from request_fi_data_consent_not_granted [OF ng] st log stored show ?thesis
    by simp
qed

text \<open>
  The claim as stated fails: for a stored PENDING consent whose status call raises, the
  route names the status \<^verbatim>\<open>denied\<close> while the consent is still stored as PENDING, and the
  message of the collector's exception names no status at all.
\<close>

theorem pending_consent_reported_as_denied:
  "fst (route_request_fi_data (scripted_env [Raises] 5) ''H1''
          (example_collector (example_consent PENDING (JStr ''R1'')))) =
     Inl (HTTPException 400 ''Consent not granted. Current status: denied'')
   \<and> status_of (snd (route_request_fi_data (scripted_env [Raises] 5) ''H1''
          (example_collector (example_consent PENDING (JStr ''R1''))))) ''H1'' = Some PENDING
   \<and> fst (request_fi_data (scripted_env [Raises] 5) ''H1''
          (example_collector (example_consent PENDING (JStr ''R1'')))) =
     Inl (ValueError ''Consent not granted or expired'')"
  by code_simp

subsection \<open>The transitions of the status\<close>

lemma create_consent_reply_other_handle:
  assumes "handle \<noteq> h"
  shows "active_consents (snd (create_consent_reply handle c r s)) h = active_consents s h"
  using assms
  by (simp add: create_consent_reply_def store_consent_def Let_def
      split: http_result.splits option.splits json.splits)

lemma create_consent_request_other_handle:
  assumes "handle \<noteq> h"
  shows "active_consents (snd (create_consent_request e handle uid fi p days mobile s)) h
         = active_consents s h"
  unfolding create_consent_request_def Let_def split_def
  by (simp add: create_consent_reply_other_handle [OF assms] datetime_now_def reading_def send_def
      split: sum.splits)

lemma get_consent_status_other_handle:
  assumes "h' \<noteq> h"
  shows "active_consents (snd (get_consent_status e h' s)) h = active_consents s h"
  using assms
  by (simp add: get_consent_status_def datetime_now_def reading_def send_def set_status_def Let_def
      split: http_result.splits option.splits sum.splits)

lemma step_keeps_consent:
  assumes "active_consents s h = Some c"
    and "\<not> creates h op"
  shows "\<exists>c'. active_consents (step e op s) h = Some c' \<and> c' = c\<lparr>status := status c'\<rparr> \<and>
           (status c' = status c
            \<or> (op = GetStatus h \<and> expires_at c < reading e s \<and> status c' = EXPIRED)
            \<or> (op = GetStatus h \<and> \<not> expires_at c < reading e s \<and>
                truthy (consent_id c) \<and>
                (\<exists>resp status_data.
                    http e (sent s) (GET_Consent_handle (consent_id c)) = Response resp \<and>
                    status_code resp = 200 \<and> json_body resp = Some status_data \<and>
                    mapped_status e status_data = Inr (status c'))))"
proof (cases op)
  case (CreateConsent handle uid fi p days mobile)
  with assms(2) have "handle \<noteq> h" by simp
  with CreateConsent assms(1) show ?thesis
    by (simp add: create_consent_request_other_handle)
next
  case (Webhook request)
  with assms(1) show ?thesis
    by (simp add: aa_consent_webhook_def)
next
  case (GetStatus h')
  show ?thesis
  proof (cases "h' = h")
    case False
    with GetStatus assms(1) show ?thesis
      by (simp add: get_consent_status_other_handle)
  next
    case True
    with GetStatus assms(1) show ?thesis
      by (auto simp: get_consent_status_def datetime_now_def reading_def send_def set_status_def Let_def
          split: http_result.splits option.splits sum.splits)
  qed
qed

text \<open>
  C1, as the code has it. A stored consent stays stored and keeps every field but its
  status through each operation that does not store a new consent under its handle. Its
  status changes only in \<^verbatim>\<open>get_consent_status\<close> for its own handle: to EXPIRED when the
  clock is past \<open>expires_at\<close>, and otherwise, for a consent with a \<open>consent_id\<close>, to the status
  mapped from a reply with code 200, whatever the status was before.
  \<^verbatim>\<open>create_consent_request\<close> for another handle and the webhook route change nothing.
\<close>

theorem status_changes_only_in_get_consent_status:
  assumes "active_consents s h = Some c"
    and "\<not> creates h op"
  shows "\<exists>c'. active_consents (step e op s) h = Some c' \<and> c' = c\<lparr>status := status c'\<rparr> \<and>
           (status c' = status c
            \<or> (op = GetStatus h \<and> expires_at c < reading e s \<and> status c' = EXPIRED)
            \<or> (op = GetStatus h \<and> \<not> expires_at c < reading e s \<and>
                truthy (consent_id c) \<and>
                (\<exists>resp status_data.
                    http e (sent s) (GET_Consent_handle (consent_id c)) = Response resp \<and>
                    status_code resp = 200 \<and> json_body resp = Some status_data \<and>
                    mapped_status e status_data = Inr (status c'))))"
  using assms by (rule step_keeps_consent)

theorem status_changes_only_in_get_consent_status_witness:
  "\<exists>c'. active_consents
           (step (scripted_env [status_reply ''PAUSED''] 5) (GetStatus ''H1'')
              (example_collector (example_consent GRANTED (JStr ''R1'')))) ''H1'' = Some c'
        \<and> status c' = PENDING"
proof -
  let ?c = "example_consent GRANTED (JStr ''R1'')"
  let ?s = "example_collector ?c"
  let ?e = "scripted_env [status_reply ''PAUSED''] 5"
  have stored: "active_consents ?s ''H1'' = Some ?c"
    by (simp add: example_collector_def)
  have op: "\<not> creates ''H1'' (GetStatus ''H1'')"
    by simp
  have after: "status_of (step ?e (GetStatus ''H1'') ?s) ''H1'' = Some PENDING"
    by code_simp
  from status_changes_only_in_get_consent_status [OF stored op, of ?e] after show ?thesis
    by (auto simp: status_of_def)
qed

text \<open>
  The claim as stated fails. In the example run the consent is created (PENDING), then
  polled four times while the network reports ACTIVE, PAUSED, REVOKED and ACTIVE: the status
  goes from GRANTED back to PENDING, and from the terminal state REVOKED to GRANTED.
\<close>

theorem granted_returns_to_pending:
  "status_of (run (scripted_env example_replies 5) (take 2 example_operations) empty_collector) ''H1''
     = Some GRANTED
   \<and> status_of (run (scripted_env example_replies 5) (take 3 example_operations) empty_collector) ''H1''
     = Some PENDING
   \<and> status_of (run (scripted_env example_replies 5) (take 4 example_operations) empty_collector) ''H1''
     = Some REVOKED
   \<and> status_of (run (scripted_env example_replies 5) (take 5 example_operations) empty_collector) ''H1''
     = Some GRANTED"
  by code_simp

text \<open>
  Along a whole run: a consent without a \<open>consent_id\<close> keeps its status until it is seen as
  expired.
\<close>

lemma run_without_consent_id:
  assumes "active_consents s h = Some c"
    and "\<not> truthy (consent_id c)"
    and "list_all (\<lambda>op. \<not> creates h op) ops"
  shows "\<exists>c'. active_consents (run e ops s) h = Some c' \<and> c' = c\<lparr>status := status c'\<rparr> \<and>
           (status c' = status c \<or> status c' = EXPIRED)"
  using assms
proof (induction ops arbitrary: s c)
  case Nil
  then show ?case by simp
next
  case (Cons op ops)
  from Cons.prems have nc: "\<not> creates h op" and rest: "list_all (\<lambda>op. \<not> creates h op) ops"
    by simp_all
  from step_keeps_consent [OF Cons.prems(1) nc, of e] Cons.prems(2)
  obtain c1 where c1: "active_consents (step e op s) h = Some c1" "c1 = c\<lparr>status := status c1\<rparr>"
      "status c1 = status c \<or> status c1 = EXPIRED"
    by blast
  from c1(2) Cons.prems(2) have "\<not> truthy (consent_id c1)"
    by (metis ConsentRequest.select_convs(8) ConsentRequest.surjective ConsentRequest.update_convs(6))
  from Cons.IH [OF c1(1) this rest] obtain c' where
    c': "active_consents (run e ops (step e op s)) h = Some c'" "c' = c1\<lparr>status := status c'\<rparr>"
      "status c' = status c1 \<or> status c' = EXPIRED"
    by blast
  from c'(2) c1(2) have "c' = c\<lparr>status := status c'\<rparr>"
    by (metis ConsentRequest.update_convs(6) ConsentRequest.surjective)
  with c' c1 show ?case by auto
qed

subsection \<open>A consent whose creation fails\<close>

text \<open>
  C8 at a transport error. When \<^verbatim>\<open>POST /consents\<close> raises, the consent is returned with
  the status DENIED but it is not stored: \<^verbatim>\<open>active_consents\<close> has no entry for its handle,
  so \<^verbatim>\<open>request_fi_data\<close> rejects the handle as invalid. When the network answers with the
  code 500 instead, the same consent is stored under its handle with the status DENIED.
\<close>

theorem create_consent_request_transport_error_not_stored:
  "(case fst (create_consent_request (scripted_env [Raises] 5) ''H1'' ''user-42''
               (Some [''DEPOSIT'']) ''Credit Assessment'' 30 None empty_collector) of
      Inl err \<Rightarrow> False
    | Inr c \<Rightarrow> status c = DENIED \<and> consent_handle c = Some ''H1'')
   \<and> active_consents
        (snd (create_consent_request (scripted_env [Raises] 5) ''H1'' ''user-42''
               (Some [''DEPOSIT'']) ''Credit Assessment'' 30 None empty_collector)) ''H1'' = None
   \<and> fst (request_fi_data (scripted_env [Raises] 5) ''H1''
            (snd (create_consent_request (scripted_env [Raises] 5) ''H1'' ''user-42''
                   (Some [''DEPOSIT'']) ''Credit Assessment'' 30 None empty_collector)))
       = Inl (ValueError ''Invalid consent handle'')
   \<and> status_of
        (snd (create_consent_request (scripted_env [reply 500 JNull] 5) ''H1'' ''user-42''
               (Some [''DEPOSIT'']) ''Credit Assessment'' 30 None empty_collector)) ''H1''
       = Some DENIED"
  by code_simp

text \<open>
  What holds of every failed creation: the consent that is returned is DENIED, never
  PENDING.
\<close>

lemma create_consent_reply_failed:
  assumes "r = Raises \<or> (\<exists>resp. r = Response resp \<and> status_code resp \<noteq> 200)"
  shows "fst (create_consent_reply handle c r s) = Inr (c\<lparr>status := DENIED\<rparr>)"
  using assms
  by (auto simp: create_consent_reply_def Let_def)

subsection \<open>Loops that stop at the first exception\<close>


lemma map_err_raises:
  assumes "x \<in> set xs" and "f x = Inl err"
  shows "\<exists>err'. map_err f xs = Inl err'"
  using assms
proof (induction xs)
  case Nil
  then show ?case by simp
next
  case (Cons a xs)
  show ?case
  proof (cases "f a")
    case (Inl e)
    then show ?thesis by simp
  next
    case (Inr y)
    with Cons.prems have "x \<in> set xs" by auto
    with Cons.IH Cons.prems(2) obtain err' where "map_err f xs = Inl err'" by blast
    with Inr show ?thesis by simp
  qed
qed


subsection \<open>The records of a payload whose normalisation does not raise\<close>












subsection \<open>A transaction whose amount does not convert\<close>

lemma transactions_of_mem:
  assumes "t \<in> set (transactions_of account)"
  obtains kv txns where "account = JObj kv" "dict_get kv ''transactions'' (JList []) = JList txns"
    "t \<in> set txns"
proof (cases account)
  case (JObj kv)
  show ?thesis
  proof (cases "dict_get kv ''transactions'' (JList [])")
    case (JList txns)
    with JObj assms have "t \<in> set txns" by (simp add: transactions_of_def)
    with JObj JList show ?thesis by (rule that)
  qed (use JObj assms in \<open>simp_all add: transactions_of_def\<close>)
qed (use assms in \<open>simp_all add: transactions_of_def\<close>)

lemma accounts_of_mem:
  assumes "a \<in> set (accounts_of fi_data)"
  obtains kv accs where "fi_data = JObj kv" "dict_get kv ''Accounts'' (JList []) = JList accs"
    "a \<in> set accs"
proof (cases fi_data)
  case (JObj kv)
  show ?thesis
  proof (cases "dict_get kv ''Accounts'' (JList [])")
    case (JList accs)
    with JObj assms have "a \<in> set accs" by (simp add: accounts_of_def)
    with JObj JList show ?thesis by (rule that)
  qed (use JObj assms in \<open>simp_all add: accounts_of_def\<close>)
qed (use assms in \<open>simp_all add: accounts_of_def\<close>)

lemma process_account_raises:
  assumes "JObj txn \<in> set (transactions_of account)"
    and "\<not> converts e (dict_get txn ''amount'' (JInt 0))"
  shows "\<exists>err. process_account e account = Inl err"
proof -
  from assms(1) obtain kv txns where
    shape: "account = JObj kv" "dict_get kv ''transactions'' (JList []) = JList txns"
    and mem: "JObj txn \<in> set txns"
    by (rule transactions_of_mem)
  show ?thesis
  proof (cases "\<exists>info. dict_get kv ''account'' (JObj []) = JObj info")
    case False
    with shape show ?thesis
      by (cases "dict_get kv ''account'' (JObj [])") (simp_all add: process_account_def Let_def)
  next
    case True
    then obtain info where info: "dict_get kv ''account'' (JObj []) = JObj info" ..
    from assms(2) obtain err where "process_transaction e (summary_of info) (JObj txn) = Inl err"
      by (auto simp: process_transaction_def converts_def split: sum.splits)
    from map_err_raises [where f = "process_transaction e (summary_of info)", OF mem this]
    obtain err' where "map_err (process_transaction e (summary_of info)) txns = Inl err'" ..
    with shape info show ?thesis
      by (simp add: process_account_def py_iter_def)
  qed
qed

lemma processed_records_raises:
  assumes "account \<in> set (accounts_of fi_data)"
    and "JObj txn \<in> set (transactions_of account)"
    and "\<not> converts e (dict_get txn ''amount'' (JInt 0))"
  shows "\<exists>err. processed_records e fi_data = Inl err"
proof -
  from assms(1) obtain kv accs where
    shape: "fi_data = JObj kv" "dict_get kv ''Accounts'' (JList []) = JList accs"
    and mem: "account \<in> set accs"
    by (rule accounts_of_mem)
  from process_account_raises [OF assms(2,3)] obtain err where
    "process_account e account = Inl err" ..
  from map_err_raises [where f = "process_account e", OF mem this] obtain err' where
    "map_err (process_account e) accs = Inl err'" ..
  with shape show ?thesis
    by (simp add: processed_records_def py_get_def py_iter_def)
qed

lemma sample_data_shape:
  "fst (generate_sample_financial_data e uid s) =
     SampleData uid (50 + random_draw e uid mod 150)
       (reading e s - timedelta_days 90) (int (clock e (Suc (clock_reads s))))"
  by (simp add: generate_sample_financial_data_def datetime_now_def reading_def)

text \<open>
  C3, as the code has it. A transaction whose \<^verbatim>\<open>amount\<close> does not convert to a float makes
  the conversion raise inside the single \<^verbatim>\<open>try\<close> of the normalisation: no record of the
  payload is emitted, and the sample data of \<^verbatim>\<open>"demo_user"\<close> are returned in their place.
  A transaction whose \<^verbatim>\<open>amount\<close> key is absent, and whose balance converts, gets the amount
  \<^verbatim>\<open>float(0)\<close>.
\<close>

theorem non_numeric_amount_gives_sample_data:
  assumes "account \<in> set (accounts_of fi_data)"
    and "JObj txn \<in> set (transactions_of account)"
    and "\<not> converts e (dict_get txn ''amount'' (JInt 0))"
  shows "(\<exists>err. processed_records e fi_data = Inl err)
       \<and> process_setu_fi_data e fi_data s = generate_sample_financial_data e ''demo_user'' s
       \<and> fst (process_setu_fi_data e fi_data s) =
           SampleData ''demo_user'' (50 + random_draw e ''demo_user'' mod 150)
             (reading e s - timedelta_days 90) (int (clock e (Suc (clock_reads s))))
       \<and> (map_of txn' ''amount'' = None \<and> converts e (dict_get txn' ''currentBalance'' (JInt 0)) \<longrightarrow>
            (\<exists>row. process_transaction e summary (JObj txn') = Inr (summary, Some row) \<and>
                   amount row = FloatOfInt 0))"
proof -
  from processed_records_raises [OF assms] obtain err where
    err: "processed_records e fi_data = Inl err" ..
  then have sample: "process_setu_fi_data e fi_data s = generate_sample_financial_data e ''demo_user'' s"
    by (simp add: process_setu_fi_data_def)
  have absent: "map_of txn' ''amount'' = None \<and> converts e (dict_get txn' ''currentBalance'' (JInt 0)) \<longrightarrow>
      (\<exists>row. process_transaction e summary (JObj txn') = Inr (summary, Some row) \<and>
             amount row = FloatOfInt 0)"
    by (auto simp: process_transaction_def converts_def dict_get_def py_float_def split: sum.splits)
  from err sample absent sample_data_shape [of e "''demo_user''" s] show ?thesis
    by simp
qed

theorem non_numeric_amount_gives_sample_data_witness:
  "process_setu_fi_data (scripted_env [] 5) malformed_payload empty_collector
     = generate_sample_financial_data (scripted_env [] 5) ''demo_user'' empty_collector
   \<and> (\<exists>row. process_transaction (scripted_env [] 5) (summary_of []) (JObj [(''transactionId'', JStr ''T3'')])
              = Inr (summary_of [], Some row) \<and> amount row = FloatOfInt 0)"
proof -
  let ?e = "scripted_env [] 5"
  let ?txn = "[(''transactionId'', JStr ''T1''), (''amount'', JStr ''abc''), (''type'', JStr ''DEBIT'')]"
  let ?account = "example_account ''ACC1''
                     [example_transaction ''T1'' (JStr ''abc''),
                      example_transaction ''T2'' (JInt 100)]"
  have acc: "?account \<in> set (accounts_of malformed_payload)"
    by code_simp
  have txn: "JObj ?txn \<in> set (transactions_of ?account)"
    by code_simp
  have bad: "\<not> converts ?e (dict_get ?txn ''amount'' (JInt 0))"
    by code_simp
  have absent: "map_of [(''transactionId'', JStr ''T3'')] ''amount'' = None"
    by simp
  have balance: "converts ?e (dict_get [(''transactionId'', JStr ''T3'')] ''currentBalance'' (JInt 0))"
    by code_simp
  from non_numeric_amount_gives_sample_data [OF acc txn bad,
      of empty_collector "[(''transactionId'', JStr ''T3'')]" "summary_of []"]
    absent balance
  show ?thesis by blast
qed

text \<open>
  The claim as stated fails. The payload has one account with two transactions, the first
  with the amount \<^verbatim>\<open>"abc"\<close>: the normalisation yields no record of the payload, neither
  one with amount 0 for the first transaction nor the record of the second, but 57 rows of
  sample data.
\<close>

theorem malformed_amount_loses_all_records:
  "total_transactions malformed_payload = 2
   \<and> processed_records (scripted_env [] 5) malformed_payload
       = Inl (ValueError ''could not convert string to float'')
   \<and> fst (process_setu_fi_data (scripted_env [] 5) malformed_payload empty_collector)
       = SampleData ''demo_user'' 57 (5 - timedelta_days 90) 5"
  by code_simp

subsection \<open>Sample data behind a successful result\<close>

lemma fetch_fi_data_reply_fields:
  assumes "http e (sent s) (GET_FI_fetch session_id) = Response resp"
    and "status_code resp = 200"
    and "json_body resp = Some (JObj kv)"
  shows "success (fst (fetch_fi_data e session_id s))
       \<and> error_message (fst (fetch_fi_data e session_id s)) = None
       \<and> result_metadata (fst (fetch_fi_data e session_id s)) = FetchMetadata session_id (map fst kv)
       \<and> data (fst (fetch_fi_data e session_id s)) =
           Some (fst (process_setu_fi_data e (JObj kv) (s\<lparr>sent := sent s @ [GET_FI_fetch session_id]\<rparr>)))
       \<and> records_collected (fst (fetch_fi_data e session_id s)) =
           len (fst (process_setu_fi_data e (JObj kv) (s\<lparr>sent := sent s @ [GET_FI_fetch session_id]\<rparr>)))"
  using assms
  by (simp add: fetch_fi_data_def send_def datetime_now_def reading_def split_def Let_def)

text \<open>
  C10, as the code has it. Let the fetch be answered with the code 200 and a body that is a
  dict, and let the normalisation of the body raise. Then \<^verbatim>\<open>_process_setu_fi_data\<close> returns
  what \<^verbatim>\<open>_generate_sample_financial_data("demo_user")\<close> returns, and \<^verbatim>\<open>fetch_fi_data\<close>
  returns a result with \<open>success = True\<close>, no error message and these sample rows (between 50
  and 199 of them) as its data. Its success flag, error message and metadata are those of
  every fetch that is answered with the code 200 and a dict with the same keys, whether the
  normalisation of that dict raises or not.
\<close>

theorem fetch_fi_data_returns_sample_data:
  assumes "http e (sent s) (GET_FI_fetch session_id) = Response resp"
    and "status_code resp = 200"
    and "json_body resp = Some (JObj kv)"
    and "processed_records e (JObj kv) = Inl err"
  shows "process_setu_fi_data e (JObj kv) s' = generate_sample_financial_data e ''demo_user'' s'
       \<and> success (fst (fetch_fi_data e session_id s))
       \<and> error_message (fst (fetch_fi_data e session_id s)) = None
       \<and> result_metadata (fst (fetch_fi_data e session_id s)) = FetchMetadata session_id (map fst kv)
       \<and> data (fst (fetch_fi_data e session_id s)) =
           Some (fst (generate_sample_financial_data e ''demo_user''
                        (s\<lparr>sent := sent s @ [GET_FI_fetch session_id]\<rparr>)))
       \<and> records_collected (fst (fetch_fi_data e session_id s)) = 50 + random_draw e ''demo_user'' mod 150
       \<and> (\<exists>n first_date last_date.
             data (fst (fetch_fi_data e session_id s)) =
               Some (SampleData ''demo_user'' n first_date last_date) \<and> 50 \<le> n \<and> n < 200)
       \<and> (\<forall>e2 s2 resp2 kv2.
             http e2 (sent s2) (GET_FI_fetch session_id) = Response resp2 \<and>
             status_code resp2 = 200 \<and> json_body resp2 = Some (JObj kv2) \<and>
             map fst kv2 = map fst kv \<longrightarrow>
               success (fst (fetch_fi_data e2 session_id s2)) =
                 success (fst (fetch_fi_data e session_id s)) \<and>
               error_message (fst (fetch_fi_data e2 session_id s2)) =
                 error_message (fst (fetch_fi_data e session_id s)) \<and>
               result_metadata (fst (fetch_fi_data e2 session_id s2)) =
                 result_metadata (fst (fetch_fi_data e session_id s)))"
proof -
  have sample: "process_setu_fi_data e (JObj kv) s' = generate_sample_financial_data e ''demo_user'' s'" for s'
    using assms(4) by (simp add: process_setu_fi_data_def)
  have bound: "50 + random_draw e ''demo_user'' mod 150 < 200"
    by simp
  note fields = fetch_fi_data_reply_fields [OF assms(1-3)]
  have same: "success (fst (fetch_fi_data e2 session_id s2)) =
        success (fst (fetch_fi_data e session_id s)) \<and>
      error_message (fst (fetch_fi_data e2 session_id s2)) =
        error_message (fst (fetch_fi_data e session_id s)) \<and>
      result_metadata (fst (fetch_fi_data e2 session_id s2)) =
        result_metadata (fst (fetch_fi_data e session_id s))"
    if "http e2 (sent s2) (GET_FI_fetch session_id) = Response resp2"
      and "status_code resp2 = 200" and "json_body resp2 = Some (JObj kv2)"
      and "map fst kv2 = map fst kv" for e2 s2 resp2 kv2
    using fetch_fi_data_reply_fields [OF that(1-3)] that(4) fields by simp
  from fields sample bound sample_data_shape [of e "''demo_user''"] have first:
    "process_setu_fi_data e (JObj kv) s' = generate_sample_financial_data e ''demo_user'' s'
       \<and> success (fst (fetch_fi_data e session_id s))
       \<and> error_message (fst (fetch_fi_data e session_id s)) = None
       \<and> result_metadata (fst (fetch_fi_data e session_id s)) = FetchMetadata session_id (map fst kv)
       \<and> data (fst (fetch_fi_data e session_id s)) =
           Some (fst (generate_sample_financial_data e ''demo_user''
                        (s\<lparr>sent := sent s @ [GET_FI_fetch session_id]\<rparr>)))
       \<and> records_collected (fst (fetch_fi_data e session_id s)) = 50 + random_draw e ''demo_user'' mod 150
       \<and> (\<exists>n first_date last_date.
             data (fst (fetch_fi_data e session_id s)) =
               Some (SampleData ''demo_user'' n first_date last_date) \<and> 50 \<le> n \<and> n < 200)"
    by simp
  from first same show ?thesis by blast
qed

theorem fetch_fi_data_returns_sample_data_witness:
  "success (fst (fetch_fi_data (scripted_env [reply 200 malformed_payload] 5) ''S1'' empty_collector))
   \<and> error_message (fst (fetch_fi_data (scripted_env [reply 200 malformed_payload] 5) ''S1'' empty_collector))
       = None
   \<and> records_collected (fst (fetch_fi_data (scripted_env [reply 200 malformed_payload] 5) ''S1'' empty_collector))
       = 57
   \<and> result_metadata (fst (fetch_fi_data (scripted_env [reply 200 example_payload] 5) ''S1'' empty_collector))
       = result_metadata (fst (fetch_fi_data (scripted_env [reply 200 malformed_payload] 5) ''S1'' empty_collector))"
proof -
  let ?e = "scripted_env [reply 200 malformed_payload] 5"
  let ?resp = "\<lparr> status_code = 200, json_body = Some malformed_payload, resp_text = [] \<rparr>"
  let ?kv = "[(''Accounts'',
            JList [example_account ''ACC1''
                     [example_transaction ''T1'' (JStr ''abc''),
                      example_transaction ''T2'' (JInt 100)]])]"
  let ?e2 = "scripted_env [reply 200 example_payload] 5"
  let ?resp2 = "\<lparr> status_code = 200, json_body = Some example_payload, resp_text = [] \<rparr>"
  let ?kv2 = "[(''Accounts'',
            JList [example_account ''ACC1''
                     [example_transaction ''T1'' (JInt 100),
                      example_transaction ''T2'' (JStr ''12.50'')],
                   example_account ''ACC2'' []])]"
  have r: "http ?e (sent empty_collector) (GET_FI_fetch ''S1'') = Response ?resp"
    by (simp add: scripted_env_def empty_collector_def reply_def)
  have code: "status_code ?resp = 200"
    by simp
  have body: "json_body ?resp = Some (JObj ?kv)"
    by (simp add: malformed_payload_def)
  have raises: "processed_records ?e (JObj ?kv) = Inl (ValueError ''could not convert string to float'')"
    by code_simp
  have draw: "random_draw ?e ''demo_user'' = 7"
    by (simp add: scripted_env_def)
  have genuine: "http ?e2 (sent empty_collector) (GET_FI_fetch ''S1'') = Response ?resp2 \<and>
      status_code ?resp2 = 200 \<and> json_body ?resp2 = Some (JObj ?kv2) \<and> map fst ?kv2 = map fst ?kv"
    by (simp add: scripted_env_def empty_collector_def reply_def example_payload_def)
  note inst = fetch_fi_data_returns_sample_data [OF r code body raises]
  from inst have same: "result_metadata (fst (fetch_fi_data ?e2 ''S1'' empty_collector)) =
      result_metadata (fst (fetch_fi_data ?e ''S1'' empty_collector))"
    using genuine by blast
  from inst draw have "success (fst (fetch_fi_data ?e ''S1'' empty_collector))
      \<and> error_message (fst (fetch_fi_data ?e ''S1'' empty_collector)) = None
      \<and> records_collected (fst (fetch_fi_data ?e ''S1'' empty_collector)) = 57"
    by simp
  with same show ?thesis by simp
qed

text \<open>
  The claim as stated fails. A body that is a JSON list makes the normalisation raise and
  the sample data are built, but \<^verbatim>\<open>list(response_data.keys())\<close> raises next, and
  \<^verbatim>\<open>fetch_fi_data\<close> reports a failure.
\<close>

theorem list_payload_reports_failure:
  "processed_records (scripted_env [reply 200 (JList [])] 5) (JList []) = Inl AttributeError
   \<and> fst (process_setu_fi_data (scripted_env [reply 200 (JList [])] 5) (JList []) empty_collector)
       = SampleData ''demo_user'' 57 (5 - timedelta_days 90) 5
   \<and> success (fst (fetch_fi_data (scripted_env [reply 200 (JList [])] 5) ''S1'' empty_collector)) = False
   \<and> error_message (fst (fetch_fi_data (scripted_env [reply 200 (JList [])] 5) ''S1'' empty_collector))
       = Some (ExceptionText AttributeError)"
  by code_simp

end
